theory Spec2Isabelle
  imports Main "HOL-Library.Word"
begin

unbundle bit_operations_syntax

section \<open>The virtual terminal client of isobus\_virtual\_terminal\_client.hpp\<close>

text \<open>
  The development follows the class \<open>VirtualTerminalClient\<close>. The header holds the
  enumerations, the constants, the data members and the declarations of the member
  functions with their documentation; it holds no body of a member function.
  Enumerations are datatypes, an enumerator's underlying value is given by a function of
  its own (\<open>std::uint8_t\<close> is \<open>8 word\<close>), structs are records. A function whose
  body is needed is modelled, and the text before it says from what.
\<close>

type_synonym u8 = "8 word"
type_synonym u16 = "16 word"
type_synonym u32 = "32 word"

subsection \<open>The multiplexor enumeration\<close>

text \<open>\<open>enum class Function : std::uint8_t\<close>, the multiplexor byte values.\<close>

datatype Function =
    SoftKeyActivationMessage
  | ButtonActivationMessage
  | PointingEventMessage
  | VTSelectInputObjectMessage
  | VTESCMessage
  | VTChangeNumericValueMessage
  | VTChangeActiveMaskMessage
  | VTChangeSoftKeyMaskMessage
  | VTChangeStringValueMessage
  | VTOnUserLayoutHideShowMessage
  | VTControlAudioSignalTerminationMessage
  | ObjectPoolTransferMessage
  | EndOfObjectPoolMessage
  | AuxiliaryAssignmentTypeOneCommand
  | AuxiliaryInputTypeOneStatus
  | PreferredAssignmentCommand
  | AuxiliaryInputTypeTwoMaintenanceMessage
  | AuxiliaryAssignmentTypeTwoCommand
  | AuxiliaryInputStatusTypeTwoEnableCommand
  | AuxiliaryInputTypeTwoStatusMessage
  | AuxiliaryCapabilitiesRequest
  | SelectActiveWorkingSet
  | ESCCommand
  | HideShowObjectCommand
  | EnableDisableObjectCommand
  | SelectInputObjectCommand
  | ControlAudioSignalCommand
  | SetAudioVolumeCommand
  | ChangeChildLocationCommand
  | ChangeSizeCommand
  | ChangeBackgroundColourCommand
  | ChangeNumericValueCommand
  | ChangeEndPointCommand
  | ChangeFontAttributesCommand
  | ChangeLineAttributesCommand
  | ChangeFillAttributesCommand
  | ChangeActiveMaskCommand
  | ChangeSoftKeyMaskCommand
  | ChangeAttributeCommand
  | ChangePriorityCommand
  | ChangeListItemCommand
  | DeleteObjectPoolCommand
  | ChangeStringValueCommand
  | ChangeChildPositionCommand
  | ChangeObjectLabelCommand
  | ChangePolygonPointCommand
  | ChangePolygonScaleCommand
  | GraphicsContextCommand
  | GetAttributeValueMessage
  | SelectColourMapCommand
  | IdentifyVTMessage
  | ExecuteExtendedMacroCommand
  | LockUnlockMaskCommand
  | ExecuteMacroCommand
  | GetMemoryMessage
  | GetSupportedWidecharsMessage
  | GetNumberOfSoftKeysMessage
  | GetTextFontDataMessage
  | GetWindowMaskDataMessage
  | GetSupportedObjectsMessage
  | GetHardwareMessage
  | StoreVersionCommand
  | LoadVersionCommand
  | DeleteVersionCommand
  | ExtendedGetVersionsMessage
  | ExtendedStoreVersionCommand
  | ExtendedLoadVersionCommand
  | ExtendedDeleteVersionCommand
  | GetVersionsMessage
  | GetVersionsResponse
  | UnsupportedVTFunctionMessage
  | VTStatusMessage
  | WorkingSetMaintenanceMessage

text \<open>The value the header assigns to each enumerator.\<close>

fun Function_value :: "Function \<Rightarrow> u8" where
  "Function_value SoftKeyActivationMessage = 0x00"
| "Function_value ButtonActivationMessage = 0x01"
| "Function_value PointingEventMessage = 0x02"
| "Function_value VTSelectInputObjectMessage = 0x03"
| "Function_value VTESCMessage = 0x04"
| "Function_value VTChangeNumericValueMessage = 0x05"
| "Function_value VTChangeActiveMaskMessage = 0x06"
| "Function_value VTChangeSoftKeyMaskMessage = 0x07"
| "Function_value VTChangeStringValueMessage = 0x08"
| "Function_value VTOnUserLayoutHideShowMessage = 0x09"
| "Function_value VTControlAudioSignalTerminationMessage = 0x0A"
| "Function_value ObjectPoolTransferMessage = 0x11"
| "Function_value EndOfObjectPoolMessage = 0x12"
| "Function_value AuxiliaryAssignmentTypeOneCommand = 0x20"
| "Function_value AuxiliaryInputTypeOneStatus = 0x21"
| "Function_value PreferredAssignmentCommand = 0x22"
| "Function_value AuxiliaryInputTypeTwoMaintenanceMessage = 0x23"
| "Function_value AuxiliaryAssignmentTypeTwoCommand = 0x24"
| "Function_value AuxiliaryInputStatusTypeTwoEnableCommand = 0x25"
| "Function_value AuxiliaryInputTypeTwoStatusMessage = 0x26"
| "Function_value AuxiliaryCapabilitiesRequest = 0x27"
| "Function_value SelectActiveWorkingSet = 0x90"
| "Function_value ESCCommand = 0x92"
| "Function_value HideShowObjectCommand = 0xA0"
| "Function_value EnableDisableObjectCommand = 0xA1"
| "Function_value SelectInputObjectCommand = 0xA2"
| "Function_value ControlAudioSignalCommand = 0xA3"
| "Function_value SetAudioVolumeCommand = 0xA4"
| "Function_value ChangeChildLocationCommand = 0xA5"
| "Function_value ChangeSizeCommand = 0xA6"
| "Function_value ChangeBackgroundColourCommand = 0xA7"
| "Function_value ChangeNumericValueCommand = 0xA8"
| "Function_value ChangeEndPointCommand = 0xA9"
| "Function_value ChangeFontAttributesCommand = 0xAA"
| "Function_value ChangeLineAttributesCommand = 0xAB"
| "Function_value ChangeFillAttributesCommand = 0xAC"
| "Function_value ChangeActiveMaskCommand = 0xAD"
| "Function_value ChangeSoftKeyMaskCommand = 0xAE"
| "Function_value ChangeAttributeCommand = 0xAF"
| "Function_value ChangePriorityCommand = 0xB0"
| "Function_value ChangeListItemCommand = 0xB1"
| "Function_value DeleteObjectPoolCommand = 0xB2"
| "Function_value ChangeStringValueCommand = 0xB3"
| "Function_value ChangeChildPositionCommand = 0xB4"
| "Function_value ChangeObjectLabelCommand = 0xB5"
| "Function_value ChangePolygonPointCommand = 0xB6"
| "Function_value ChangePolygonScaleCommand = 0xB7"
| "Function_value GraphicsContextCommand = 0xB8"
| "Function_value GetAttributeValueMessage = 0xB9"
| "Function_value SelectColourMapCommand = 0xBA"
| "Function_value IdentifyVTMessage = 0xBB"
| "Function_value ExecuteExtendedMacroCommand = 0xBC"
| "Function_value LockUnlockMaskCommand = 0xBD"
| "Function_value ExecuteMacroCommand = 0xBE"
| "Function_value GetMemoryMessage = 0xC0"
| "Function_value GetSupportedWidecharsMessage = 0xC1"
| "Function_value GetNumberOfSoftKeysMessage = 0xC2"
| "Function_value GetTextFontDataMessage = 0xC3"
| "Function_value GetWindowMaskDataMessage = 0xC4"
| "Function_value GetSupportedObjectsMessage = 0xC5"
| "Function_value GetHardwareMessage = 0xC7"
| "Function_value StoreVersionCommand = 0xD0"
| "Function_value LoadVersionCommand = 0xD1"
| "Function_value DeleteVersionCommand = 0xD2"
| "Function_value ExtendedGetVersionsMessage = 0xD3"
| "Function_value ExtendedStoreVersionCommand = 0xD4"
| "Function_value ExtendedLoadVersionCommand = 0xD5"
| "Function_value ExtendedDeleteVersionCommand = 0xD6"
| "Function_value GetVersionsMessage = 0xDF"
| "Function_value GetVersionsResponse = 0xE0"
| "Function_value UnsupportedVTFunctionMessage = 0xFD"
| "Function_value VTStatusMessage = 0xFE"
| "Function_value WorkingSetMaintenanceMessage = 0xFF"

text \<open>The enumerators in the order of their declaration.\<close>

definition Function_enumerators :: "Function list" where
  "Function_enumerators =
    [SoftKeyActivationMessage, ButtonActivationMessage, PointingEventMessage,
     VTSelectInputObjectMessage, VTESCMessage, VTChangeNumericValueMessage,
     VTChangeActiveMaskMessage, VTChangeSoftKeyMaskMessage, VTChangeStringValueMessage,
     VTOnUserLayoutHideShowMessage, VTControlAudioSignalTerminationMessage,
     ObjectPoolTransferMessage, EndOfObjectPoolMessage,
     AuxiliaryAssignmentTypeOneCommand, AuxiliaryInputTypeOneStatus,
     PreferredAssignmentCommand, AuxiliaryInputTypeTwoMaintenanceMessage,
     AuxiliaryAssignmentTypeTwoCommand, AuxiliaryInputStatusTypeTwoEnableCommand,
     AuxiliaryInputTypeTwoStatusMessage, AuxiliaryCapabilitiesRequest,
     SelectActiveWorkingSet, ESCCommand, HideShowObjectCommand,
     EnableDisableObjectCommand, SelectInputObjectCommand, ControlAudioSignalCommand,
     SetAudioVolumeCommand, ChangeChildLocationCommand, ChangeSizeCommand,
     ChangeBackgroundColourCommand, ChangeNumericValueCommand, ChangeEndPointCommand,
     ChangeFontAttributesCommand, ChangeLineAttributesCommand,
     ChangeFillAttributesCommand, ChangeActiveMaskCommand, ChangeSoftKeyMaskCommand,
     ChangeAttributeCommand, ChangePriorityCommand, ChangeListItemCommand,
     DeleteObjectPoolCommand, ChangeStringValueCommand, ChangeChildPositionCommand,
     ChangeObjectLabelCommand, ChangePolygonPointCommand, ChangePolygonScaleCommand,
     GraphicsContextCommand, GetAttributeValueMessage, SelectColourMapCommand,
     IdentifyVTMessage, ExecuteExtendedMacroCommand, LockUnlockMaskCommand,
     ExecuteMacroCommand, GetMemoryMessage, GetSupportedWidecharsMessage,
     GetNumberOfSoftKeysMessage, GetTextFontDataMessage, GetWindowMaskDataMessage,
     GetSupportedObjectsMessage, GetHardwareMessage, StoreVersionCommand,
     LoadVersionCommand, DeleteVersionCommand, ExtendedGetVersionsMessage,
     ExtendedStoreVersionCommand, ExtendedLoadVersionCommand,
     ExtendedDeleteVersionCommand, GetVersionsMessage, GetVersionsResponse,
     UnsupportedVTFunctionMessage, VTStatusMessage, WorkingSetMaintenanceMessage]"

text \<open>The multiplexor values the enumeration defines.\<close>

definition defined_function_codes :: "u8 list" where
  "defined_function_codes = map Function_value Function_enumerators"

text \<open>
  The multiplexor taxonomy of the specification (section 6, "Function multiplexor
  taxonomy"), row by row; a row written as a range \<open>lo\<close>--\<open>hi\<close> stands for every code from
  \<open>lo\<close> to \<open>hi\<close>. It is the other side of the comparison with the enumeration and is
  not taken from the header.
\<close>

definition code_range :: "nat \<Rightarrow> nat \<Rightarrow> u8 list" where
  "code_range lo hi = map of_nat [lo..<Suc hi]"

definition spec_multiplexor_taxonomy :: "u8 list" where
  "spec_multiplexor_taxonomy =
     [0x00, 0x01, 0x02, 0x03, 0x04, 0x05, 0x06, 0x07, 0x08, 0x09, 0x0A, 0x11, 0x12, 0x90]
     @ code_range 0xA0 0xB7 @ [0xB8, 0xB9] @ code_range 0xBA 0xBE
     @ code_range 0xC0 0xC7 @ code_range 0xD0 0xD6 @ [0xDF, 0xE0, 0xFD, 0xFE, 0xFF]"

subsection \<open>The other enumerations\<close>

text \<open>\<open>enum class KeyActivationCode : std::uint8_t\<close>.\<close>

datatype KeyActivationCode =
    ButtonUnlatchedOrReleased
  | ButtonPressedOrLatched
  | ButtonStillHeld
  | ButtonPressAborted

fun KeyActivationCode_value :: "KeyActivationCode \<Rightarrow> u8" where
  "KeyActivationCode_value ButtonUnlatchedOrReleased = 0"
| "KeyActivationCode_value ButtonPressedOrLatched = 1"
| "KeyActivationCode_value ButtonStillHeld = 2"
| "KeyActivationCode_value ButtonPressAborted = 3"

text \<open>
  Modelled from the spec: the conversion of the activation byte of an event frame to
  the enumeration, which is part of the body of \<open>process_rx_message\<close> (not in the
  header). Section 4.4 gives the four activation codes 0, 1, 2 and 3; a byte with one of
  these values is the enumerator of that value, and any other byte is no activation code.
\<close>

definition KeyActivationCode_of_value :: "u8 \<Rightarrow> KeyActivationCode option" where
  "KeyActivationCode_of_value b =
     (if b = 0 then Some ButtonUnlatchedOrReleased
      else if b = 1 then Some ButtonPressedOrLatched
      else if b = 2 then Some ButtonStillHeld
      else if b = 3 then Some ButtonPressAborted
      else None)"

text \<open>\<open>enum class VTVersion\<close>, \<open>enum class GraphicMode\<close>.\<close>

datatype VTVersion =
    Version2OrOlder | Version3 | Version4 | Version5 | Version6 | ReservedOrUnknown

datatype GraphicMode = Monochrome | SixteenColour | TwoHundredFiftySixColor

text \<open>\<open>enum class StateMachineState : std::uint8_t\<close>.\<close>

datatype StateMachineState =
    Disconnected
  | WaitForPartnerVTStatusMessage
  | SendWorkingSetMasterMessage
  | ReadyForObjectPool
  | SendGetMemory
  | WaitForGetMemoryResponse
  | SendGetNumberSoftkeys
  | WaitForGetNumberSoftKeysResponse
  | SendGetTextFontData
  | WaitForGetTextFontDataResponse
  | SendGetHardware
  | WaitForGetHardwareResponse
  | UploadObjectPool
  | SendEndOfObjectPool
  | WaitForEndOfObjectPoolResponse
  | Connected
  | Failed

text \<open>\<open>enum class GraphicsContextSubCommandID : std::uint8_t\<close>.\<close>

datatype GraphicsContextSubCommandID =
    SetGraphicsCursor
  | MoveGraphicsCursor
  | SetForegroundColor
  | SetBackgroundColor
  | SetLineAttributesObjectID
  | SetFillAttributesObjectID
  | SetFontAttributesObjectID
  | EraseRectangle
  | DrawPoint
  | DrawLine
  | DrawRectangle
  | DrawClosedEllipse
  | DrawPolygon
  | DrawText
  | PanViewport
  | ZoomViewport
  | PanAndZoomViewport
  | ChangeViewportSize
  | DrawVTObject
  | CopyCanvasToPictureGraphic
  | CopyViewportToPictureGraphic

fun GraphicsContextSubCommandID_value :: "GraphicsContextSubCommandID \<Rightarrow> u8" where
  "GraphicsContextSubCommandID_value SetGraphicsCursor = 0x00"
| "GraphicsContextSubCommandID_value MoveGraphicsCursor = 0x01"
| "GraphicsContextSubCommandID_value SetForegroundColor = 0x02"
| "GraphicsContextSubCommandID_value SetBackgroundColor = 0x03"
| "GraphicsContextSubCommandID_value SetLineAttributesObjectID = 0x04"
| "GraphicsContextSubCommandID_value SetFillAttributesObjectID = 0x05"
| "GraphicsContextSubCommandID_value SetFontAttributesObjectID = 0x06"
| "GraphicsContextSubCommandID_value EraseRectangle = 0x07"
| "GraphicsContextSubCommandID_value DrawPoint = 0x08"
| "GraphicsContextSubCommandID_value DrawLine = 0x09"
| "GraphicsContextSubCommandID_value DrawRectangle = 0x0A"
| "GraphicsContextSubCommandID_value DrawClosedEllipse = 0x0B"
| "GraphicsContextSubCommandID_value DrawPolygon = 0x0C"
| "GraphicsContextSubCommandID_value DrawText = 0x0D"
| "GraphicsContextSubCommandID_value PanViewport = 0x0E"
| "GraphicsContextSubCommandID_value ZoomViewport = 0x0F"
| "GraphicsContextSubCommandID_value PanAndZoomViewport = 0x10"
| "GraphicsContextSubCommandID_value ChangeViewportSize = 0x11"
| "GraphicsContextSubCommandID_value DrawVTObject = 0x12"
| "GraphicsContextSubCommandID_value CopyCanvasToPictureGraphic = 0x13"
| "GraphicsContextSubCommandID_value CopyViewportToPictureGraphic = 0x14"

text \<open>\<open>enum class CurrentObjectPoolUploadState : std::uint8_t\<close>.\<close>

datatype CurrentObjectPoolUploadState = Uninitialized | InProgress | Success | UploadFailed
  \<comment> \<open>\<open>UploadFailed\<close> is the enumerator \<open>Failed\<close>, a name \<open>StateMachineState\<close> has too\<close>

subsection \<open>The data members\<close>

text \<open>
  A function pointer is the address it holds. A data chunk callback gets the number of the
  call, the byte offset and the number of bytes wanted, and writes them to the chunk
  buffer it is handed: it answers \<open>None\<close> where the C++ callback returns false, and
  otherwise the bytes it wrote, by position in the buffer.
\<close>

type_synonym VTKeyEventCallback = nat
type_synonym VTPointingEventCallback = nat
type_synonym VTSelectInputObjectCallback = nat
type_synonym DataChunkCallback = "nat \<Rightarrow> nat \<Rightarrow> nat \<Rightarrow> (nat \<Rightarrow> u8) option"

text \<open>
  \<open>struct ObjectPoolDataStruct\<close>. A pointer is \<open>None\<close> when null and otherwise the
  bytes it points to.
\<close>

record ObjectPoolDataStruct =
  objectPoolDataPointer :: "u8 list option"
  objectPoolVectorPointer :: "u8 list option"
  dataCallback :: "DataChunkCallback option"
  objectPoolSize :: u32
  version :: VTVersion
  useDataCallback :: bool
  uploaded :: bool

text \<open>
  The data members of \<open>VirtualTerminalClient\<close>, in the order of the header. The two
  control function handles, the worker thread and the processing flags object belong to
  the network stack and the runtime and are left out.
\<close>

record VirtualTerminalClient =
  lastVTStatusTimestamp_ms :: u32
  activeWorkingSetDataMaskObjectID :: u16
  activeWorkingSetSoftkeyMaskObjectID :: u16
  activeWorkingSetMasterAddress :: u8
  busyCodesBitfield :: u8
  currentCommandFunctionCode :: u8
  connectedVTVersion :: u8
  softKeyXAxisPixels :: u8
  softKeyYAxisPixels :: u8
  numberVirtualSoftkeysPerSoftkeyMask :: u8
  numberPhysicalSoftkeys :: u8
  smallFontSizesBitfield :: u8
  largeFontSizesBitfield :: u8
  fontStylesBitfield :: u8
  supportedGraphicsMode :: GraphicMode
  xPixels :: u16
  yPixels :: u16
  hardwareFeaturesBitfield :: u8
  state :: StateMachineState
  currentObjectPoolState :: CurrentObjectPoolUploadState
  stateMachineTimestamp_ms :: u32
  lastWorkingSetMaintenanceTimestamp_ms :: u32
  buttonEventCallbacks :: "VTKeyEventCallback list"
  softKeyEventCallbacks :: "VTKeyEventCallback list"
  pointingEventCallbacks :: "VTPointingEventCallback list"
  selectInputObjectCallbacks :: "VTSelectInputObjectCallback list"
  objectPools :: "ObjectPoolDataStruct list"
  initialized :: bool
  sendWorkingSetMaintenenace :: bool
  shouldTerminate :: bool
  objectPoolDataCallback :: "DataChunkCallback option"
  objectPoolSize_bytes :: u32
  lastObjectPoolIndex :: u32

text \<open>
  A client whose members are all zero, with no callback and no pool registered, in state
  \<open>Disconnected\<close>: the value concrete clients are built from by record update.
\<close>

definition blank_client :: VirtualTerminalClient where
  "blank_client =
     \<lparr>lastVTStatusTimestamp_ms = 0, activeWorkingSetDataMaskObjectID = 0,
      activeWorkingSetSoftkeyMaskObjectID = 0, activeWorkingSetMasterAddress = 0,
      busyCodesBitfield = 0, currentCommandFunctionCode = 0, connectedVTVersion = 0,
      softKeyXAxisPixels = 0, softKeyYAxisPixels = 0,
      numberVirtualSoftkeysPerSoftkeyMask = 0, numberPhysicalSoftkeys = 0,
      smallFontSizesBitfield = 0, largeFontSizesBitfield = 0, fontStylesBitfield = 0,
      supportedGraphicsMode = Monochrome, xPixels = 0, yPixels = 0,
      hardwareFeaturesBitfield = 0, state = Disconnected,
      currentObjectPoolState = Uninitialized, stateMachineTimestamp_ms = 0,
      lastWorkingSetMaintenanceTimestamp_ms = 0, buttonEventCallbacks = [],
      softKeyEventCallbacks = [], pointingEventCallbacks = [],
      selectInputObjectCallbacks = [], objectPools = [], initialized = False,
      sendWorkingSetMaintenenace = False, shouldTerminate = False,
      objectPoolDataCallback = None, objectPoolSize_bytes = 0, lastObjectPoolIndex = 0\<rparr>"

subsection \<open>Event callbacks\<close>

text \<open>
  A call of a registered key event or pointing event callback, with the arguments of
  the callback typedefs \<open>VTKeyEventCallback\<close> (key event, key number, object ID, parent
  object ID) and \<open>VTPointingEventCallback\<close> (key event, x position, y position). The
  first component is the callback called; the last argument of the typedefs, the
  pointer back to the client, is the client at hand and is not recorded.
\<close>

datatype callback_invocation =
    KeyEventCall VTKeyEventCallback KeyActivationCode u8 u16 u16
  | PointingEventCall VTPointingEventCallback KeyActivationCode u16 u16

fun invocation_KeyActivationCode :: "callback_invocation \<Rightarrow> KeyActivationCode" where
  "invocation_KeyActivationCode (KeyEventCall f keyEvent keyNumber objectID parentObjectID) =
     keyEvent"
| "invocation_KeyActivationCode (PointingEventCall f keyEvent xPosition yPosition) = keyEvent"

text \<open>
  Modelled from the spec: the bodies of \<open>process_button_event_callback\<close>,
  \<open>process_softkey_event_callback\<close> and \<open>process_pointing_event_callback\<close>, which the
  header only declares ("Calls all registered callbacks for ... events"). Section 4.4:
  an event invokes every registered callback of the matching kind, in registration
  order, with the decoded fields. The result is the list of the calls made, in order.
\<close>

definition process_button_event_callback ::
  "KeyActivationCode \<Rightarrow> u8 \<Rightarrow> u16 \<Rightarrow> u16 \<Rightarrow> VirtualTerminalClient \<Rightarrow> callback_invocation list" where
  "process_button_event_callback keyEvent keyNumber objectID parentObjectID c =
     map (\<lambda>f. KeyEventCall f keyEvent keyNumber objectID parentObjectID)
       (buttonEventCallbacks c)"

definition process_softkey_event_callback ::
  "KeyActivationCode \<Rightarrow> u8 \<Rightarrow> u16 \<Rightarrow> u16 \<Rightarrow> VirtualTerminalClient \<Rightarrow> callback_invocation list" where
  "process_softkey_event_callback keyEvent keyNumber objectID parentObjectID c =
     map (\<lambda>f. KeyEventCall f keyEvent keyNumber objectID parentObjectID)
       (softKeyEventCallbacks c)"

definition process_pointing_event_callback ::
  "KeyActivationCode \<Rightarrow> u16 \<Rightarrow> u16 \<Rightarrow> VirtualTerminalClient \<Rightarrow> callback_invocation list" where
  "process_pointing_event_callback signal xPosition yPosition c =
     map (\<lambda>f. PointingEventCall f signal xPosition yPosition) (pointingEventCallbacks c)"

text \<open>
  The positions of the fields in the three event frames that carry an activation code.
  The specification names the fields of these frames (section 4.4: object IDs, key
  numbers, activation codes, coordinates) and gives them no byte offsets, and the
  decoder is in the body of \<open>process_rx_message\<close>: the offsets are a parameter of the
  model. A 16-bit field is at its offset and the byte after it.
\<close>

record KeyEventLayout =
  keyEventAt :: nat
  keyNumberAt :: nat
  objectIDAt :: nat
  parentObjectIDAt :: nat

record PointingEventLayout =
  xPositionAt :: nat
  yPositionAt :: nat
  pointingKeyEventAt :: nat

record EventLayouts =
  softKeyLayout :: KeyEventLayout
  buttonLayout :: KeyEventLayout
  pointingLayout :: PointingEventLayout

text \<open>
  Modelled from the spec: reading a field of a frame. A byte is read where the frame has
  one; a 16-bit field is little-endian (section 4.3). A field that is not inside the
  frame cannot be read.
\<close>

definition uint8_at :: "u8 list \<Rightarrow> nat \<Rightarrow> u8 option" where
  "uint8_at frame i = (if i < length frame then Some (frame ! i) else None)"

definition uint16_at :: "u8 list \<Rightarrow> nat \<Rightarrow> u16 option" where
  "uint16_at frame i =
     (if Suc i < length frame then Some (word_cat (frame ! Suc i) (frame ! i)) else None)"

text \<open>
  Modelled from the spec: the decoding of a key event frame (softkey or button) and of a
  pointing event frame, part of the body of \<open>process_rx_message\<close>. Section 4.4: the
  handler decodes the typed fields of the frame. A frame in which a field cannot be
  read, or whose activation byte is none of the four codes, is not decoded.
\<close>

definition decode_key_event ::
  "KeyEventLayout \<Rightarrow> u8 list \<Rightarrow> (KeyActivationCode \<times> u8 \<times> u16 \<times> u16) option" where
  "decode_key_event K frame =
     (case uint8_at frame (keyEventAt K) of
        None \<Rightarrow> None
      | Some b \<Rightarrow>
          (case KeyActivationCode_of_value b of
             None \<Rightarrow> None
           | Some keyEvent \<Rightarrow>
               (case uint8_at frame (keyNumberAt K) of
                  None \<Rightarrow> None
                | Some keyNumber \<Rightarrow>
                    (case uint16_at frame (objectIDAt K) of
                       None \<Rightarrow> None
                     | Some objectID \<Rightarrow>
                         (case uint16_at frame (parentObjectIDAt K) of
                            None \<Rightarrow> None
                          | Some parentObjectID \<Rightarrow>
                              Some (keyEvent, keyNumber, objectID, parentObjectID))))))"

definition decode_pointing_event ::
  "PointingEventLayout \<Rightarrow> u8 list \<Rightarrow> (KeyActivationCode \<times> u16 \<times> u16) option" where
  "decode_pointing_event P frame =
     (case uint8_at frame (pointingKeyEventAt P) of
        None \<Rightarrow> None
      | Some b \<Rightarrow>
          (case KeyActivationCode_of_value b of
             None \<Rightarrow> None
           | Some keyEvent \<Rightarrow>
               (case uint16_at frame (xPositionAt P) of
                  None \<Rightarrow> None
                | Some xPosition \<Rightarrow>
                    (case uint16_at frame (yPositionAt P) of
                       None \<Rightarrow> None
                     | Some yPosition \<Rightarrow> Some (keyEvent, xPosition, yPosition)))))"

text \<open>
  Modelled from the spec: the part of the body of \<open>process_rx_message\<close> that handles
  the softkey activation, button activation and pointing event messages. Section 4.4:
  byte 0 of the frame selects the handler (0x00, 0x01 and 0x02, the header's
  \<open>SoftKeyActivationMessage\<close>, \<open>ButtonActivationMessage\<close> and \<open>PointingEventMessage\<close>);
  the handler decodes the frame and calls the registered callbacks of its kind. The
  result is the list of the calls of key event and pointing event callbacks that the
  frame causes; a frame of any other message causes none.
\<close>

definition process_rx_message ::
  "EventLayouts \<Rightarrow> u8 list \<Rightarrow> VirtualTerminalClient \<Rightarrow> callback_invocation list" where
  "process_rx_message L frame c =
     (case frame of
        [] \<Rightarrow> []
      | multiplexor # payload \<Rightarrow>
          if multiplexor = Function_value SoftKeyActivationMessage then
            (case decode_key_event (softKeyLayout L) frame of
               None \<Rightarrow> []
             | Some (keyEvent, keyNumber, objectID, parentObjectID) \<Rightarrow>
                 process_softkey_event_callback keyEvent keyNumber objectID parentObjectID c)
          else if multiplexor = Function_value ButtonActivationMessage then
            (case decode_key_event (buttonLayout L) frame of
               None \<Rightarrow> []
             | Some (keyEvent, keyNumber, objectID, parentObjectID) \<Rightarrow>
                 process_button_event_callback keyEvent keyNumber objectID parentObjectID c)
          else if multiplexor = Function_value PointingEventMessage then
            (case decode_pointing_event (pointingLayout L) frame of
               None \<Rightarrow> []
             | Some (keyEvent, xPosition, yPosition) \<Rightarrow>
                 process_pointing_event_callback keyEvent xPosition yPosition c)
          else [])"

text \<open>
  The activation byte of an event frame: the byte at the position the layout of the
  frame's message gives to the activation code.
\<close>

definition activation_byte :: "EventLayouts \<Rightarrow> u8 list \<Rightarrow> u8 option" where
  "activation_byte L frame =
     (case frame of
        [] \<Rightarrow> None
      | multiplexor # payload \<Rightarrow>
          if multiplexor = Function_value SoftKeyActivationMessage
          then uint8_at frame (keyEventAt (softKeyLayout L))
          else if multiplexor = Function_value ButtonActivationMessage
          then uint8_at frame (keyEventAt (buttonLayout L))
          else if multiplexor = Function_value PointingEventMessage
          then uint8_at frame (pointingKeyEventAt (pointingLayout L))
          else None)"

text \<open>
  A layout and a client for concrete frames. The layout has the activation code in byte
  1, the object ID in bytes 2 and 3, the parent object ID in bytes 4 and 5 and the key
  number in byte 6 of a key event frame, and the x position in bytes 1 and 2, the y
  position in bytes 3 and 4 and the activation code in byte 5 of a pointing event frame.
  The client has two callbacks of each kind registered.
\<close>

definition example_event_layouts :: EventLayouts where
  "example_event_layouts =
     \<lparr>softKeyLayout =
        \<lparr>keyEventAt = 1, keyNumberAt = 6, objectIDAt = 2, parentObjectIDAt = 4\<rparr>,
      buttonLayout =
        \<lparr>keyEventAt = 1, keyNumberAt = 6, objectIDAt = 2, parentObjectIDAt = 4\<rparr>,
      pointingLayout = \<lparr>xPositionAt = 1, yPositionAt = 3, pointingKeyEventAt = 5\<rparr>\<rparr>"

definition example_event_client :: VirtualTerminalClient where
  "example_event_client =
     blank_client\<lparr>buttonEventCallbacks := [20, 21], softKeyEventCallbacks := [10, 11],
                   pointingEventCallbacks := [30, 31]\<rparr>"

subsection \<open>The graphics context command\<close>

text \<open>
  Modelled from the spec: the frame of a graphics context command, whose encoder is in
  the bodies of the \<open>send_*\<close> functions and not in the header. Section 4.3: byte 0 is the
  function code, the object ID follows in bytes 1--2, the sub-command selector in byte
  3, then the fields of the sub-command; integers are little-endian. The function code
  and the selector are the header's \<open>Function::GraphicsContextCommand\<close> and
  \<open>GraphicsContextSubCommandID\<close>.
\<close>

definition graphics_context_frame ::
  "u16 \<Rightarrow> GraphicsContextSubCommandID \<Rightarrow> u8 list \<Rightarrow> u8 list" where
  "graphics_context_frame objectID subCommand params =
     [Function_value GraphicsContextCommand, ucast objectID, ucast (drop_bit 8 objectID),
      GraphicsContextSubCommandID_value subCommand] @ params"

text \<open>
  Modelled from the spec: the body of \<open>send_draw_rectangle\<close>, which the header only
  declares (\<open>objectID\<close>, \<open>width\<close>, \<open>height\<close>, "returns true if the message was sent
  successfully"). Section 4.3: a command is refused outside \<open>Connected\<close>; otherwise the
  frame is handed to the network stack, whose answer (\<open>accepted\<close>) is the result. The
  width and the height follow the selector, as scenario S6 has them. The result is the
  returned flag and the frames handed over.
\<close>

definition send_draw_rectangle ::
  "u16 \<Rightarrow> u16 \<Rightarrow> u16 \<Rightarrow> bool \<Rightarrow> VirtualTerminalClient \<Rightarrow> bool \<times> u8 list list" where
  "send_draw_rectangle objectID width height accepted c =
     (if state c = Connected \<and> accepted
      then (True, [graphics_context_frame objectID DrawRectangle
                     [ucast width, ucast (drop_bit 8 width),
                      ucast height, ucast (drop_bit 8 height)]])
      else (False, []))"

subsection \<open>The object pool upload\<close>

text \<open>
  Modelled from the spec: the descriptors that the two overloads of \<open>set_object_pool\<close>
  and \<open>register_object_pool_data_chunk_callback\<close> store (their bodies are not in the
  header). Section 3: a descriptor holds one of the three sources, the declared size,
  the version and the \<open>uploaded\<close> flag, which starts false. The vector overload has no
  size parameter: the size is the vector's, as a \<open>std::uint32_t\<close>.
\<close>

definition contiguous_pool :: "VTVersion \<Rightarrow> u8 list \<Rightarrow> u32 \<Rightarrow> ObjectPoolDataStruct" where
  "contiguous_pool poolSupportedVTVersion pool poolSize =
     \<lparr>objectPoolDataPointer = Some pool, objectPoolVectorPointer = None, dataCallback = None,
      objectPoolSize = poolSize, version = poolSupportedVTVersion, useDataCallback = False,
      uploaded = False\<rparr>"

definition vector_pool :: "VTVersion \<Rightarrow> u8 list \<Rightarrow> ObjectPoolDataStruct" where
  "vector_pool poolSupportedVTVersion pool =
     \<lparr>objectPoolDataPointer = None, objectPoolVectorPointer = Some pool, dataCallback = None,
      objectPoolSize = of_nat (length pool), version = poolSupportedVTVersion,
      useDataCallback = False, uploaded = False\<rparr>"

definition callback_pool :: "VTVersion \<Rightarrow> u32 \<Rightarrow> DataChunkCallback \<Rightarrow> ObjectPoolDataStruct" where
  "callback_pool poolSupportedVTVersion poolTotalSize value =
     \<lparr>objectPoolDataPointer = None, objectPoolVectorPointer = None, dataCallback = Some value,
      objectPoolSize = poolTotalSize, version = poolSupportedVTVersion,
      useDataCallback = True, uploaded = False\<rparr>"

text \<open>
  Modelled from the spec: the pull operation \<open>get(offset, length)\<close> of section 4.2, which
  is part of the upload callback's body. For a buffer or a vector it is a slice of the
  memory; a slice that would leave the memory is a failure here (the C++ read would be
  out of bounds). For a callback pool it calls the application's callback and reads the
  \<open>n\<close> bytes of the chunk buffer.
\<close>

definition read_memory :: "u8 list \<Rightarrow> nat \<Rightarrow> nat \<Rightarrow> u8 list option" where
  "read_memory mem bytesOffset n =
     (if bytesOffset + n \<le> length mem then Some (take n (drop bytesOffset mem)) else None)"

definition get_pool_data :: "ObjectPoolDataStruct \<Rightarrow> nat \<Rightarrow> nat \<Rightarrow> nat \<Rightarrow> u8 list option" where
  "get_pool_data p callbackIndex bytesOffset n =
     (if useDataCallback p then
        (case dataCallback p of
           None \<Rightarrow> None
         | Some cb \<Rightarrow> map_option (\<lambda>buffer. map buffer [0..<n]) (cb callbackIndex bytesOffset n))
      else
        (case objectPoolDataPointer p of
           Some mem \<Rightarrow> read_memory mem bytesOffset n
         | None \<Rightarrow>
             (case objectPoolVectorPointer p of
                Some v \<Rightarrow> read_memory v bytesOffset n
              | None \<Rightarrow> None)))"

text \<open>
  Modelled from the spec: the body of \<open>process_internal_object_pool_upload_callback\<close>.
  The header declares it with the number of the call, the byte offset in the transport
  message, the number of bytes needed and the chunk buffer, and says that the upload
  goes through this callback so that the multiplexor can be the first byte of the
  transport message without a copy of the pool. Section 4.2: the multiplexor is
  prepended to the first chunk; every later byte of the message is the pool byte one
  position before it. \<open>p\<close> is the pool being uploaded; the result is the content of the
  chunk buffer, or \<open>None\<close> for false.
\<close>

definition process_internal_object_pool_upload_callback ::
  "ObjectPoolDataStruct \<Rightarrow> nat \<Rightarrow> nat \<Rightarrow> nat \<Rightarrow> u8 list option" where
  "process_internal_object_pool_upload_callback p callbackIndex bytesOffset numberOfBytesNeeded =
     (if numberOfBytesNeeded = 0 then Some []
      else if bytesOffset = 0 then
        map_option ((#) (Function_value ObjectPoolTransferMessage))
          (get_pool_data p callbackIndex 0 (numberOfBytesNeeded - 1))
      else get_pool_data p callbackIndex (bytesOffset - 1) numberOfBytesNeeded)"

text \<open>
  Modelled from the spec: what the client submits to the transport sublayer for one pool
  (the call is in the body of \<open>update\<close>): a message of the pool's size plus one byte,
  whose data the sublayer pulls through the upload callback.
\<close>

record transport_request =
  dataLength :: nat
  frameChunkCallback :: "nat \<Rightarrow> nat \<Rightarrow> nat \<Rightarrow> u8 list option"

definition submit_object_pool_upload :: "ObjectPoolDataStruct \<Rightarrow> transport_request" where
  "submit_object_pool_upload p =
     \<lparr>dataLength = unat (objectPoolSize p) + 1,
      frameChunkCallback = process_internal_object_pool_upload_callback p\<rparr>"

text \<open>
  Modelled from the spec: the transport sublayer, which belongs to the network stack. It
  sends a message of \<open>totalLength\<close> bytes in frames of \<open>k\<close> data bytes (7 on the bus),
  the last one shorter if need be; for each frame it calls the data callback with the
  number of the call, the offset reached and the number of bytes the frame needs, and
  it gives up when the callback fails. The result is the byte stream sent.
\<close>

function transport_stream ::
  "(nat \<Rightarrow> nat \<Rightarrow> nat \<Rightarrow> u8 list option) \<Rightarrow> nat \<Rightarrow> nat \<Rightarrow> nat \<Rightarrow> nat \<Rightarrow> u8 list option" where
  "transport_stream cb k callbackIndex bytesOffset totalLength =
     (if totalLength \<le> bytesOffset then Some []
      else if k = 0 then None
      else (case cb callbackIndex bytesOffset (min k (totalLength - bytesOffset)) of
              None \<Rightarrow> None
            | Some chunk \<Rightarrow>
                map_option ((@) chunk)
                  (transport_stream cb k (Suc callbackIndex)
                     (bytesOffset + min k (totalLength - bytesOffset)) totalLength)))"
  by pat_completeness auto
termination
  by (relation "measure (\<lambda>(cb, k, callbackIndex, bytesOffset, totalLength). totalLength - bytesOffset)")
    auto

definition transport_payload :: "nat \<Rightarrow> transport_request \<Rightarrow> u8 list option" where
  "transport_payload k request =
     transport_stream (frameChunkCallback request) k 0 0 (dataLength request)"

text \<open>
  Modelled from the spec: the body of \<open>process_callback\<close>, which the header declares as
  the callback "to know when a Tx is completed", with the flag \<open>successful\<close>. Section
  4.2: pools upload in ascending order and an uploaded pool is skipped, so the pool a
  completion belongs to is the first one not uploaded; the upload state becomes
  \<open>Success\<close> and the pool is marked uploaded on success, and the upload state becomes
  \<open>Failed\<close> otherwise. A completion outside \<open>UploadObjectPool\<close> changes nothing.
\<close>

fun mark_pending_pool_uploaded :: "ObjectPoolDataStruct list \<Rightarrow> ObjectPoolDataStruct list" where
  "mark_pending_pool_uploaded [] = []"
| "mark_pending_pool_uploaded (p # ps) =
     (if uploaded p then p # mark_pending_pool_uploaded ps else p\<lparr>uploaded := True\<rparr> # ps)"

definition process_callback :: "bool \<Rightarrow> VirtualTerminalClient \<Rightarrow> VirtualTerminalClient" where
  "process_callback successful c =
     (if state c = UploadObjectPool then
        (if successful
         then c\<lparr>currentObjectPoolState := Success,
                objectPools := mark_pending_pool_uploaded (objectPools c)\<rparr>
         else c\<lparr>currentObjectPoolState := UploadFailed\<rparr>)
      else c)"

text \<open>
  A pool holds the bytes \<open>d\<close> when every slice of \<open>d\<close> can be pulled from it.
\<close>

definition pool_holds :: "ObjectPoolDataStruct \<Rightarrow> u8 list \<Rightarrow> bool" where
  "pool_holds p d \<longleftrightarrow>
     (\<forall>i off n. off + n \<le> length d \<longrightarrow> get_pool_data p i off n = Some (take n (drop off d)))"

section \<open>Properties\<close>

subsection \<open>The multiplexor enumeration and the specification's taxonomy\<close>

lemma range_Function_value: "range Function_value = set defined_function_codes"
proof
  show "range Function_value \<subseteq> set defined_function_codes"
  proof
    fix c
    assume "c \<in> range Function_value"
    then obtain f where c: "c = Function_value f" by blast
    show "c \<in> set defined_function_codes"
      unfolding c defined_function_codes_def Function_enumerators_def
      by (cases f) simp_all
  qed
  show "set defined_function_codes \<subseteq> range Function_value"
    unfolding defined_function_codes_def by auto
qed

lemma taxonomy_has_0xC6: "(0xC6 :: u8) \<in> set spec_multiplexor_taxonomy"
  unfolding spec_multiplexor_taxonomy_def code_range_def by (simp add: upt_rec)

lemma enumeration_lacks_0xC6: "(0xC6 :: u8) \<notin> range Function_value"
  unfolding range_Function_value defined_function_codes_def Function_enumerators_def by simp

lemma taxonomy_but_0xC6_defined:
  "set spec_multiplexor_taxonomy - {0xC6} \<subseteq> range Function_value"
proof -
  have "set (removeAll 0xC6 spec_multiplexor_taxonomy) \<subseteq> set defined_function_codes"
    unfolding spec_multiplexor_taxonomy_def code_range_def defined_function_codes_def
      Function_enumerators_def
    by (simp add: upt_rec)
  then show ?thesis by (simp add: range_Function_value)
qed

lemma auxiliary_codes_outside_taxonomy:
  "set [0x20, 0x21, 0x22, 0x23, 0x24, 0x25, 0x26, 0x27 :: u8] \<inter> set spec_multiplexor_taxonomy = {}"
  unfolding spec_multiplexor_taxonomy_def code_range_def by (simp add: upt_rec)

lemma codes_beyond_taxonomy:
  "filter (\<lambda>c. c \<notin> set spec_multiplexor_taxonomy) defined_function_codes
     = [0x20, 0x21, 0x22, 0x23, 0x24, 0x25, 0x26, 0x27, 0x92]"
  unfolding spec_multiplexor_taxonomy_def code_range_def defined_function_codes_def
    Function_enumerators_def
  by (simp add: upt_rec)

text \<open>
  The two ESC enumerators: \<open>VTESCMessage\<close> is 0x04 and is the only enumerator with that
  value; \<open>ESCCommand\<close> is 0x92, a value of the command range 0x90 to 0xBE.
\<close>

lemma ESC_enumerators:
  "Function_value VTESCMessage = 0x04
   \<and> filter (\<lambda>f. Function_value f = 0x04) Function_enumerators = [VTESCMessage]
   \<and> Function_value ESCCommand = 0x92
   \<and> 0x90 \<le> Function_value ESCCommand \<and> Function_value ESCCommand \<le> 0xBE"
  unfolding Function_enumerators_def by simp

text \<open>
  C10, as amended. The enumeration assigns the auxiliary control codes 0x20 to 0x27 as
  listed, and the taxonomy of the specification has none of them. The codes the
  enumeration defines beyond the taxonomy are these eight and 0x92. The taxonomy's row
  0xC0--0xC7 holds 0xC6, which the enumeration does not define; every other code of the
  taxonomy is defined, so the enumeration's codes are a strict superset of the taxonomy
  without 0xC6, not of the taxonomy.
\<close>

theorem Function_codes_and_taxonomy:
  "map Function_value
     [AuxiliaryAssignmentTypeOneCommand, AuxiliaryInputTypeOneStatus,
      PreferredAssignmentCommand, AuxiliaryInputTypeTwoMaintenanceMessage,
      AuxiliaryAssignmentTypeTwoCommand, AuxiliaryInputStatusTypeTwoEnableCommand,
      AuxiliaryInputTypeTwoStatusMessage, AuxiliaryCapabilitiesRequest]
     = [0x20, 0x21, 0x22, 0x23, 0x24, 0x25, 0x26, 0x27]
   \<and> set [0x20, 0x21, 0x22, 0x23, 0x24, 0x25, 0x26, 0x27] \<inter> set spec_multiplexor_taxonomy = {}
   \<and> filter (\<lambda>c. c \<notin> set spec_multiplexor_taxonomy) defined_function_codes
       = [0x20, 0x21, 0x22, 0x23, 0x24, 0x25, 0x26, 0x27, 0x92]
   \<and> 0xC6 \<in> set spec_multiplexor_taxonomy \<and> 0xC6 \<notin> range Function_value
   \<and> set spec_multiplexor_taxonomy - {0xC6} \<subset> range Function_value"
proof -
  have "Function_value ESCCommand \<in> range Function_value" by blast
  moreover have "Function_value ESCCommand \<notin> set spec_multiplexor_taxonomy"
    unfolding spec_multiplexor_taxonomy_def code_range_def by (simp add: upt_rec)
  ultimately have "set spec_multiplexor_taxonomy - {0xC6} \<noteq> range Function_value" by blast
  with taxonomy_but_0xC6_defined
  have "set spec_multiplexor_taxonomy - {0xC6} \<subset> range Function_value" by blast
  with auxiliary_codes_outside_taxonomy codes_beyond_taxonomy taxonomy_has_0xC6
    enumeration_lacks_0xC6
  show ?thesis by simp
qed

text \<open>
  C10 as stated fails: 0xC6 is a code of the taxonomy that the enumeration does not
  define, so the enumeration's codes are not a superset of the taxonomy.
\<close>

theorem Function_codes_superset_counterexample:
  "0xC6 \<in> set spec_multiplexor_taxonomy \<and> 0xC6 \<notin> range Function_value
   \<and> \<not> set spec_multiplexor_taxonomy \<subset> range Function_value"
  using taxonomy_has_0xC6 enumeration_lacks_0xC6 by blast

subsection \<open>Activation codes\<close>

lemma KeyActivationCode_of_value_Some:
  "KeyActivationCode_of_value b = Some e \<longleftrightarrow> KeyActivationCode_value e = b"
  by (cases e) (auto simp: KeyActivationCode_of_value_def)

lemma KeyActivationCode_value_range: "KeyActivationCode_value e \<in> {0, 1, 2, 3}"
  by (cases e) simp_all

lemma decode_key_event_code:
  "decode_key_event K frame = Some (e, n, obj, par) \<Longrightarrow>
   uint8_at frame (keyEventAt K) = Some (KeyActivationCode_value e)"
  unfolding decode_key_event_def
  by (cases "uint8_at frame (keyEventAt K)")
    (auto simp: KeyActivationCode_of_value_Some split: option.splits)

lemma decode_pointing_event_code:
  "decode_pointing_event P frame = Some (e, x, y) \<Longrightarrow>
   uint8_at frame (pointingKeyEventAt P) = Some (KeyActivationCode_value e)"
  unfolding decode_pointing_event_def
  by (cases "uint8_at frame (pointingKeyEventAt P)")
    (auto simp: KeyActivationCode_of_value_Some split: option.splits)

lemma process_rx_message_code:
  assumes "call \<in> set (process_rx_message L frame c)"
  shows "activation_byte L frame
    = Some (KeyActivationCode_value (invocation_KeyActivationCode call))"
proof (cases frame)
  case Nil
  with assms show ?thesis by (simp add: process_rx_message_def)
next
  case (Cons m payload)
  consider (softkey) "m = 0x00" | (button) "m = 0x01" | (pointing) "m = 0x02"
    | (other) "m \<noteq> 0x00" "m \<noteq> 0x01" "m \<noteq> 0x02"
    by blast
  then show ?thesis
  proof cases
    case softkey
    show ?thesis
    proof (cases "decode_key_event (softKeyLayout L) frame")
      case None
      with assms Cons softkey show ?thesis by (simp add: process_rx_message_def)
    next
      case (Some r)
      obtain e n obj par where r: "r = (e, n, obj, par)" by (cases r) auto
      from Some r assms Cons softkey
      have "call \<in> set (process_softkey_event_callback e n obj par c)"
        by (simp add: process_rx_message_def)
      then have "invocation_KeyActivationCode call = e"
        by (auto simp: process_softkey_event_callback_def)
      moreover have "uint8_at frame (keyEventAt (softKeyLayout L)) = Some (KeyActivationCode_value e)"
        using Some r by (simp add: decode_key_event_code)
      ultimately show ?thesis
        using softkey Cons by (simp add: activation_byte_def)
    qed
  next
    case button
    show ?thesis
    proof (cases "decode_key_event (buttonLayout L) frame")
      case None
      with assms Cons button show ?thesis by (simp add: process_rx_message_def)
    next
      case (Some r)
      obtain e n obj par where r: "r = (e, n, obj, par)" by (cases r) auto
      from Some r assms Cons button
      have "call \<in> set (process_button_event_callback e n obj par c)"
        by (simp add: process_rx_message_def)
      then have "invocation_KeyActivationCode call = e"
        by (auto simp: process_button_event_callback_def)
      moreover have "uint8_at frame (keyEventAt (buttonLayout L)) = Some (KeyActivationCode_value e)"
        using Some r by (simp add: decode_key_event_code)
      ultimately show ?thesis
        using button Cons by (simp add: activation_byte_def)
    qed
  next
    case pointing
    show ?thesis
    proof (cases "decode_pointing_event (pointingLayout L) frame")
      case None
      with assms Cons pointing show ?thesis by (simp add: process_rx_message_def)
    next
      case (Some r)
      obtain e x y where r: "r = (e, x, y)" by (cases r) auto
      from Some r assms Cons pointing
      have "call \<in> set (process_pointing_event_callback e x y c)"
        by (simp add: process_rx_message_def)
      then have "invocation_KeyActivationCode call = e"
        by (auto simp: process_pointing_event_callback_def)
      moreover have "uint8_at frame (pointingKeyEventAt (pointingLayout L)) = Some (KeyActivationCode_value e)"
        using Some r by (simp add: decode_pointing_event_code)
      ultimately show ?thesis
        using pointing Cons by (simp add: activation_byte_def)
    qed
  next
    case other
    with assms Cons show ?thesis by (simp add: process_rx_message_def)
  qed
qed

lemma process_rx_message_softkey:
  assumes "frame ! 0 = 0x00"
    and "keyEventAt (softKeyLayout L) < length frame"
    and "keyNumberAt (softKeyLayout L) < length frame"
    and "Suc (objectIDAt (softKeyLayout L)) < length frame"
    and "Suc (parentObjectIDAt (softKeyLayout L)) < length frame"
    and "frame ! keyEventAt (softKeyLayout L) = KeyActivationCode_value e"
  shows "process_rx_message L frame c =
    map (\<lambda>f. KeyEventCall f e (frame ! keyNumberAt (softKeyLayout L))
               (word_cat (frame ! Suc (objectIDAt (softKeyLayout L)))
                  (frame ! objectIDAt (softKeyLayout L)))
               (word_cat (frame ! Suc (parentObjectIDAt (softKeyLayout L)))
                  (frame ! parentObjectIDAt (softKeyLayout L))))
      (softKeyEventCallbacks c)"
proof -
  from assms(2) obtain multiplexor payload where f: "frame = multiplexor # payload"
    by (cases frame) auto
  with assms(1) have "multiplexor = 0x00" by simp
  moreover have "KeyActivationCode_of_value (frame ! keyEventAt (softKeyLayout L)) = Some e"
    using assms(6) by (simp add: KeyActivationCode_of_value_Some)
  ultimately show ?thesis
    using assms(2-5) f
    by (simp add: process_rx_message_def decode_key_event_def uint8_at_def uint16_at_def
        process_softkey_event_callback_def del: nth_Cons_Suc)
qed

lemma process_rx_message_button:
  assumes "frame ! 0 = 0x01"
    and "keyEventAt (buttonLayout L) < length frame"
    and "keyNumberAt (buttonLayout L) < length frame"
    and "Suc (objectIDAt (buttonLayout L)) < length frame"
    and "Suc (parentObjectIDAt (buttonLayout L)) < length frame"
    and "frame ! keyEventAt (buttonLayout L) = KeyActivationCode_value e"
  shows "process_rx_message L frame c =
    map (\<lambda>f. KeyEventCall f e (frame ! keyNumberAt (buttonLayout L))
               (word_cat (frame ! Suc (objectIDAt (buttonLayout L)))
                  (frame ! objectIDAt (buttonLayout L)))
               (word_cat (frame ! Suc (parentObjectIDAt (buttonLayout L)))
                  (frame ! parentObjectIDAt (buttonLayout L))))
      (buttonEventCallbacks c)"
proof -
  from assms(2) obtain multiplexor payload where f: "frame = multiplexor # payload"
    by (cases frame) auto
  with assms(1) have "multiplexor = 0x01" by simp
  moreover have "KeyActivationCode_of_value (frame ! keyEventAt (buttonLayout L)) = Some e"
    using assms(6) by (simp add: KeyActivationCode_of_value_Some)
  ultimately show ?thesis
    using assms(2-5) f
    by (simp add: process_rx_message_def decode_key_event_def uint8_at_def uint16_at_def
        process_button_event_callback_def del: nth_Cons_Suc)
qed

lemma process_rx_message_pointing:
  assumes "frame ! 0 = 0x02"
    and "pointingKeyEventAt (pointingLayout L) < length frame"
    and "Suc (xPositionAt (pointingLayout L)) < length frame"
    and "Suc (yPositionAt (pointingLayout L)) < length frame"
    and "frame ! pointingKeyEventAt (pointingLayout L) = KeyActivationCode_value e"
  shows "process_rx_message L frame c =
    map (\<lambda>f. PointingEventCall f e
               (word_cat (frame ! Suc (xPositionAt (pointingLayout L)))
                  (frame ! xPositionAt (pointingLayout L)))
               (word_cat (frame ! Suc (yPositionAt (pointingLayout L)))
                  (frame ! yPositionAt (pointingLayout L))))
      (pointingEventCallbacks c)"
proof -
  from assms(2) obtain multiplexor payload where f: "frame = multiplexor # payload"
    by (cases frame) auto
  with assms(1) have "multiplexor = 0x02" by simp
  moreover have
    "KeyActivationCode_of_value (frame ! pointingKeyEventAt (pointingLayout L)) = Some e"
    using assms(5) by (simp add: KeyActivationCode_of_value_Some)
  ultimately show ?thesis
    using assms(2-4) f
    by (simp add: process_rx_message_def decode_pointing_event_def uint8_at_def uint16_at_def
        process_pointing_event_callback_def del: nth_Cons_Suc)
qed

text \<open>
  C9. The activation codes are 0 for released or unlatched, 1 for pressed or latched, 2
  for held and 3 for aborted, for softkey, button and pointing events alike. Whatever
  frame is received, every call of a key event or pointing event callback that it causes
  carries an enumerator whose value is the activation byte of the frame, one of the four
  codes. And a softkey, button or pointing frame whose fields lie inside the frame and
  whose activation byte is the value of an enumerator is decoded: each registered
  callback of its kind is called once, in registration order, with that enumerator and
  the fields of the frame.
\<close>

theorem KeyActivationCode_delivered:
  "KeyActivationCode_value ButtonUnlatchedOrReleased = 0
   \<and> KeyActivationCode_value ButtonPressedOrLatched = 1
   \<and> KeyActivationCode_value ButtonStillHeld = 2
   \<and> KeyActivationCode_value ButtonPressAborted = 3
   \<and> (\<forall>call \<in> set (process_rx_message L frame c).
         activation_byte L frame
           = Some (KeyActivationCode_value (invocation_KeyActivationCode call))
         \<and> KeyActivationCode_value (invocation_KeyActivationCode call) \<in> {0, 1, 2, 3})
   \<and> (softKeyFrame ! 0 = 0x00
        \<and> keyEventAt (softKeyLayout L) < length softKeyFrame
        \<and> keyNumberAt (softKeyLayout L) < length softKeyFrame
        \<and> Suc (objectIDAt (softKeyLayout L)) < length softKeyFrame
        \<and> Suc (parentObjectIDAt (softKeyLayout L)) < length softKeyFrame
        \<and> softKeyFrame ! keyEventAt (softKeyLayout L) = KeyActivationCode_value e1 \<longrightarrow>
        process_rx_message L softKeyFrame c =
          map (\<lambda>f. KeyEventCall f e1 (softKeyFrame ! keyNumberAt (softKeyLayout L))
                     (word_cat (softKeyFrame ! Suc (objectIDAt (softKeyLayout L)))
                        (softKeyFrame ! objectIDAt (softKeyLayout L)))
                     (word_cat (softKeyFrame ! Suc (parentObjectIDAt (softKeyLayout L)))
                        (softKeyFrame ! parentObjectIDAt (softKeyLayout L))))
            (softKeyEventCallbacks c))
   \<and> (buttonFrame ! 0 = 0x01
        \<and> keyEventAt (buttonLayout L) < length buttonFrame
        \<and> keyNumberAt (buttonLayout L) < length buttonFrame
        \<and> Suc (objectIDAt (buttonLayout L)) < length buttonFrame
        \<and> Suc (parentObjectIDAt (buttonLayout L)) < length buttonFrame
        \<and> buttonFrame ! keyEventAt (buttonLayout L) = KeyActivationCode_value e2 \<longrightarrow>
        process_rx_message L buttonFrame c =
          map (\<lambda>f. KeyEventCall f e2 (buttonFrame ! keyNumberAt (buttonLayout L))
                     (word_cat (buttonFrame ! Suc (objectIDAt (buttonLayout L)))
                        (buttonFrame ! objectIDAt (buttonLayout L)))
                     (word_cat (buttonFrame ! Suc (parentObjectIDAt (buttonLayout L)))
                        (buttonFrame ! parentObjectIDAt (buttonLayout L))))
            (buttonEventCallbacks c))
   \<and> (pointingFrame ! 0 = 0x02
        \<and> pointingKeyEventAt (pointingLayout L) < length pointingFrame
        \<and> Suc (xPositionAt (pointingLayout L)) < length pointingFrame
        \<and> Suc (yPositionAt (pointingLayout L)) < length pointingFrame
        \<and> pointingFrame ! pointingKeyEventAt (pointingLayout L) = KeyActivationCode_value e3 \<longrightarrow>
        process_rx_message L pointingFrame c =
          map (\<lambda>f. PointingEventCall f e3
                     (word_cat (pointingFrame ! Suc (xPositionAt (pointingLayout L)))
                        (pointingFrame ! xPositionAt (pointingLayout L)))
                     (word_cat (pointingFrame ! Suc (yPositionAt (pointingLayout L)))
                        (pointingFrame ! yPositionAt (pointingLayout L))))
            (pointingEventCallbacks c))"
  using process_rx_message_code [of _ L frame c] KeyActivationCode_value_range
    process_rx_message_softkey [of softKeyFrame L e1 c]
    process_rx_message_button [of buttonFrame L e2 c]
    process_rx_message_pointing [of pointingFrame L e3 c]
  by simp

text \<open>
  The softkey frame of scenario S5 (activation byte 1, key 5, object 0x1234, parent
  0x5678), a button frame (held, key 7) and a pointing frame (aborted, at 800, 480),
  each received by the client with two callbacks of each kind.
\<close>

theorem KeyActivationCode_delivered_witness:
  "process_rx_message example_event_layouts [0x00, 0x01, 0x34, 0x12, 0x78, 0x56, 0x05, 0xFF]
      example_event_client
     = [KeyEventCall 10 ButtonPressedOrLatched 5 0x1234 0x5678,
        KeyEventCall 11 ButtonPressedOrLatched 5 0x1234 0x5678]
   \<and> process_rx_message example_event_layouts [0x01, 0x02, 0x10, 0x00, 0x20, 0x00, 0x07, 0xFF]
      example_event_client
     = [KeyEventCall 20 ButtonStillHeld 7 0x0010 0x0020,
        KeyEventCall 21 ButtonStillHeld 7 0x0010 0x0020]
   \<and> process_rx_message example_event_layouts [0x02, 0x20, 0x03, 0xE0, 0x01, 0x03, 0xFF, 0xFF]
      example_event_client
     = [PointingEventCall 30 ButtonPressAborted 0x0320 0x01E0,
        PointingEventCall 31 ButtonPressAborted 0x0320 0x01E0]
   \<and> activation_byte example_event_layouts [0x00, 0x01, 0x34, 0x12, 0x78, 0x56, 0x05, 0xFF]
     = Some 1"
proof -
  let ?s = "[0x00, 0x01, 0x34, 0x12, 0x78, 0x56, 0x05, 0xFF] :: u8 list"
  let ?b = "[0x01, 0x02, 0x10, 0x00, 0x20, 0x00, 0x07, 0xFF] :: u8 list"
  let ?p = "[0x02, 0x20, 0x03, 0xE0, 0x01, 0x03, 0xFF, 0xFF] :: u8 list"
  note t = KeyActivationCode_delivered
    [where L = example_event_layouts and c = example_event_client and frame = ?s
       and softKeyFrame = ?s and buttonFrame = ?b and pointingFrame = ?p
       and ?e1.0 = ButtonPressedOrLatched and ?e2.0 = ButtonStillHeld
       and ?e3.0 = ButtonPressAborted]
  have w16: "(word_cat (0x12 :: u8) (0x34 :: u8) :: u16) = 0x1234"
    "(word_cat (0x56 :: u8) (0x78 :: u8) :: u16) = 0x5678"
    "(word_cat (0x00 :: u8) (0x10 :: u8) :: u16) = 0x0010"
    "(word_cat (0x00 :: u8) (0x20 :: u8) :: u16) = 0x0020"
    "(word_cat (0x03 :: u8) (0x20 :: u8) :: u16) = 0x0320"
    "(word_cat (0x01 :: u8) (0xE0 :: u8) :: u16) = 0x01E0"
    by (simp_all add: word_cat_eq push_bit_eq_mult)
  have s: "process_rx_message example_event_layouts ?s example_event_client
     = [KeyEventCall 10 ButtonPressedOrLatched 5 0x1234 0x5678,
        KeyEventCall 11 ButtonPressedOrLatched 5 0x1234 0x5678]"
    using t w16 by (simp add: example_event_layouts_def example_event_client_def)
  have b: "process_rx_message example_event_layouts ?b example_event_client
     = [KeyEventCall 20 ButtonStillHeld 7 0x0010 0x0020,
        KeyEventCall 21 ButtonStillHeld 7 0x0010 0x0020]"
    using t w16 by (simp add: example_event_layouts_def example_event_client_def)
  have p: "process_rx_message example_event_layouts ?p example_event_client
     = [PointingEventCall 30 ButtonPressAborted 0x0320 0x01E0,
        PointingEventCall 31 ButtonPressAborted 0x0320 0x01E0]"
    using t w16 by (simp add: example_event_layouts_def example_event_client_def)
  have a: "activation_byte example_event_layouts ?s = Some 1"
    using t s by simp
  from s b p a show ?thesis by simp
qed

subsection \<open>The graphics context command\<close>

lemma little_endian_u16: "word_cat (ucast (drop_bit 8 x) :: u8) (ucast x :: u8) = (x :: u16)"
  by (rule bit_word_eqI) (auto simp add: bit_simps)

text \<open>
  C8. A graphics context frame has the function code 0xB8 in byte 0, the object ID in
  bytes 1 and 2, low byte first, and the sub-command selector in byte 3; and a
  connected client whose frame the network stack accepts sends, for
  \<open>send_draw_rectangle\<close> with object 0x0100, width 40 and height 20, exactly the frame
  B8 00 01 0A 28 00 14 00.
\<close>

theorem graphics_context_frame_layout:
  "graphics_context_frame objectID subCommand params ! 0 = 0xB8
   \<and> (word_cat (graphics_context_frame objectID subCommand params ! 2)
               (graphics_context_frame objectID subCommand params ! 1) :: u16) = objectID
   \<and> graphics_context_frame objectID subCommand params ! 3
       = GraphicsContextSubCommandID_value subCommand
   \<and> send_draw_rectangle 0x0100 40 20 True (c\<lparr>state := Connected\<rparr>)
       = (True, [[0xB8, 0x00, 0x01, 0x0A, 0x28, 0x00, 0x14, 0x00]])"
  by (simp add: graphics_context_frame_def send_draw_rectangle_def little_endian_u16)

subsection \<open>The object pool upload\<close>

declare transport_stream.simps [simp del]

lemma get_pool_data_length:
  "get_pool_data p i off n = Some chunk \<Longrightarrow> length chunk = n"
  by (auto simp: get_pool_data_def read_memory_def split: if_splits option.splits)

lemma upload_callback_length:
  "process_internal_object_pool_upload_callback p i off n = Some chunk \<Longrightarrow> length chunk = n"
  by (auto simp: process_internal_object_pool_upload_callback_def
      split: if_splits dest!: get_pool_data_length)

lemma transport_stream_length:
  "0 < k \<Longrightarrow> \<forall>i off n chunk. cb i off n = Some chunk \<longrightarrow> length chunk = n \<Longrightarrow>
   transport_stream cb k i off totalLength = Some bytes \<Longrightarrow> length bytes = totalLength - off"
proof (induction cb k i off totalLength arbitrary: bytes rule: transport_stream.induct)
  case (1 cb k i off totalLength)
  show ?case
  proof (cases "totalLength \<le> off")
    case True
    with "1.prems" show ?thesis by (simp add: transport_stream.simps)
  next
    case False
    let ?n = "min k (totalLength - off)"
    from False "1.prems" obtain chunk rest where
      c: "cb i off ?n = Some chunk"
      and r: "transport_stream cb k (Suc i) (off + ?n) totalLength = Some rest"
      and b: "bytes = chunk @ rest"
      by (subst (asm) transport_stream.simps) (auto split: option.splits)
    have "length chunk = ?n" using "1.prems"(2) c by blast
    moreover have "length rest = totalLength - (off + ?n)"
      using "1.IH" [OF _ _ c _ _ r] False "1.prems"(1,2) by simp
    ultimately show ?thesis using b False by auto
  qed
qed

lemma transport_stream_tail:
  assumes h: "pool_holds p d" and k: "0 < k"
  shows "0 < off \<Longrightarrow> off \<le> length d + 1 \<Longrightarrow>
    transport_stream (process_internal_object_pool_upload_callback p) k i off (length d + 1)
      = Some (drop (off - 1) d)"
proof (induction "length d + 1 - off" arbitrary: off i rule: less_induct)
  case less
  show ?case
  proof (cases "length d + 1 \<le> off")
    case True
    with less.prems show ?thesis by (simp add: transport_stream.simps)
  next
    case False
    let ?n = "min k (length d + 1 - off)"
    have n: "0 < ?n" using False k by simp
    have fit: "(off - 1) + ?n \<le> length d" using False less.prems by auto
    have c: "process_internal_object_pool_upload_callback p i off ?n
               = Some (take ?n (drop (off - 1) d))"
      using h fit n less.prems(1)
      by (simp add: process_internal_object_pool_upload_callback_def pool_holds_def)
    have r: "transport_stream (process_internal_object_pool_upload_callback p) k (Suc i) (off + ?n)
               (length d + 1) = Some (drop (off + ?n - 1) d)"
      using less.hyps [of "off + ?n" "Suc i"] n fit less.prems by auto
    have "take ?n (drop (off - 1) d) @ drop (off + ?n - 1) d = drop (off - 1) d"
    proof -
      have "off + ?n - 1 = ?n + (off - 1)" using less.prems(1) by simp
      then show ?thesis by (simp add: drop_drop [symmetric] del: drop_drop)
    qed
    with c r False k show ?thesis
      by (subst transport_stream.simps) simp
  qed
qed

lemma transport_stream_pool:
  assumes h: "pool_holds p d" and k: "0 < k"
  shows "transport_stream (process_internal_object_pool_upload_callback p) k 0 0 (length d + 1)
      = Some (Function_value ObjectPoolTransferMessage # d)"
proof -
  let ?n = "min k (length d + 1)"
  have n: "0 < ?n" using k by simp
  have c: "process_internal_object_pool_upload_callback p 0 0 ?n
             = Some (Function_value ObjectPoolTransferMessage # take (?n - 1) d)"
    using h n by (simp add: process_internal_object_pool_upload_callback_def pool_holds_def)
  have r: "transport_stream (process_internal_object_pool_upload_callback p) k (Suc 0) ?n
             (length d + 1) = Some (drop (?n - 1) d)"
    using transport_stream_tail [OF h k, of ?n "Suc 0"] n by simp
  show ?thesis
    using c r k by (subst transport_stream.simps) simp
qed

lemma transport_stream_first:
  assumes k: "0 < k"
    and s: "transport_stream (process_internal_object_pool_upload_callback p) k 0 0 (Suc m)
              = Some bytes"
  shows "hd bytes = Function_value ObjectPoolTransferMessage"
proof -
  let ?n = "min k (Suc m)"
  have n: "0 < ?n" using k by simp
  from s k obtain chunk rest where
    c: "process_internal_object_pool_upload_callback p 0 0 ?n = Some chunk"
    and b: "bytes = chunk @ rest"
    by (subst (asm) transport_stream.simps) (auto split: option.splits)
  from c n obtain tl' where "chunk = Function_value ObjectPoolTransferMessage # tl'"
    by (auto simp: process_internal_object_pool_upload_callback_def split: if_splits)
  with b show ?thesis by simp
qed

lemma payload_of_pool:
  "pool_holds p d \<Longrightarrow> length d = unat (objectPoolSize p) \<Longrightarrow> 0 < k \<Longrightarrow>
   transport_payload k (submit_object_pool_upload p) = Some (0x11 # d)"
  using transport_stream_pool [of p d k]
  by (simp add: transport_payload_def submit_object_pool_upload_def)

lemma payload_shape:
  assumes "0 < k" and "transport_payload k (submit_object_pool_upload p) = Some bytes"
  shows "length bytes = unat (objectPoolSize p) + 1 \<and> hd bytes = 0x11"
proof -
  from assms(2) have s: "transport_stream (process_internal_object_pool_upload_callback p) k 0 0
      (Suc (unat (objectPoolSize p))) = Some bytes"
    by (simp add: transport_payload_def submit_object_pool_upload_def)
  have "length bytes = Suc (unat (objectPoolSize p)) - 0"
    using transport_stream_length [OF assms(1) _ s] upload_callback_length by blast
  moreover have "hd bytes = 0x11"
    using transport_stream_first [OF assms(1) s] by simp
  ultimately show ?thesis by simp
qed

lemma read_memory_holds:
  "n \<le> length mem \<Longrightarrow> off + m \<le> n \<Longrightarrow>
   read_memory mem off m = Some (take m (drop off (take n mem)))"
  by (simp add: read_memory_def drop_take min_def)

lemma contiguous_pool_holds:
  "unat poolSize \<le> length mem \<Longrightarrow>
   pool_holds (contiguous_pool v mem poolSize) (take (unat poolSize) mem)"
  by (simp add: pool_holds_def get_pool_data_def contiguous_pool_def read_memory_holds)

lemma vector_pool_holds:
  "pool_holds (vector_pool v vec) (take (unat (of_nat (length vec) :: u32)) vec)"
proof -
  have "unat (of_nat (length vec) :: u32) \<le> length vec"
    by (simp add: unat_of_nat)
  then show ?thesis
    by (simp add: pool_holds_def get_pool_data_def vector_pool_def read_memory_holds)
qed

lemma callback_pool_holds:
  "\<forall>i off n. off + n \<le> length d \<longrightarrow> cb i off n = Some (\<lambda>j. d ! (off + j)) \<Longrightarrow>
   pool_holds (callback_pool v poolTotalSize cb) d"
  by (auto simp: pool_holds_def get_pool_data_def callback_pool_def intro!: nth_equalityI)

lemma mark_pending_pool_uploaded_append:
  "list_all uploaded earlier \<Longrightarrow> \<not> uploaded p \<Longrightarrow>
   mark_pending_pool_uploaded (earlier @ p # rest) = earlier @ p\<lparr>uploaded := True\<rparr> # rest"
  by (induction earlier) auto

lemma process_callback_pools:
  "state c = UploadObjectPool \<Longrightarrow> objectPools c = earlier @ p # rest \<Longrightarrow>
   list_all uploaded earlier \<Longrightarrow> \<not> uploaded p \<Longrightarrow>
   objectPools (process_callback successful c) = earlier @ p\<lparr>uploaded := successful\<rparr> # rest"
  by (cases successful) (simp_all add: process_callback_def mark_pending_pool_uploaded_append)

text \<open>
  C4. For a pool of declared size \<open>S\<close>, whatever its source, the message submitted to
  the transport sublayer has \<open>S + 1\<close> bytes, and a transfer that completes has sent
  \<open>S + 1\<close> bytes of which the first is the multiplexor 0x11. The transfer of a buffer
  that holds \<open>S\<close> bytes and of a vector always completes, with the pool's bytes after the
  multiplexor; so does that of a callback pool whose callback serves \<open>S\<close> bytes. After
  the completion callback the pool that was uploaded has its \<open>uploaded\<close> flag equal to
  the success the callback reported, and the other pools are as before.
\<close>

theorem object_pool_upload_complete:
  "0 < k \<Longrightarrow>
   dataLength (submit_object_pool_upload p) = unat (objectPoolSize p) + 1
   \<and> (transport_payload k (submit_object_pool_upload p) = Some bytes \<longrightarrow>
        length bytes = unat (objectPoolSize p) + 1 \<and> hd bytes = 0x11)
   \<and> (unat poolSize \<le> length mem \<longrightarrow>
        transport_payload k (submit_object_pool_upload (contiguous_pool v mem poolSize))
          = Some (0x11 # take (unat poolSize) mem))
   \<and> transport_payload k (submit_object_pool_upload (vector_pool v vec))
       = Some (0x11 # take (unat (of_nat (length vec) :: u32)) vec)
   \<and> (length d = unat poolTotalSize
        \<and> (\<forall>i off n. off + n \<le> length d \<longrightarrow> cb i off n = Some (\<lambda>j. d ! (off + j))) \<longrightarrow>
        transport_payload k (submit_object_pool_upload (callback_pool v poolTotalSize cb))
          = Some (0x11 # d))
   \<and> (state c = UploadObjectPool \<and> objectPools c = earlier @ q # rest
        \<and> list_all uploaded earlier \<and> \<not> uploaded q \<longrightarrow>
        objectPools (process_callback successful c) = earlier @ q\<lparr>uploaded := successful\<rparr> # rest)"
proof -
  assume k: "0 < k"
  have a: "dataLength (submit_object_pool_upload p) = unat (objectPoolSize p) + 1"
    by (simp add: submit_object_pool_upload_def)
  have b: "transport_payload k (submit_object_pool_upload p) = Some bytes \<longrightarrow>
        length bytes = unat (objectPoolSize p) + 1 \<and> hd bytes = 0x11"
    using payload_shape [OF k] by blast
  have c1: "unat poolSize \<le> length mem \<longrightarrow>
        transport_payload k (submit_object_pool_upload (contiguous_pool v mem poolSize))
          = Some (0x11 # take (unat poolSize) mem)"
  proof
    assume le: "unat poolSize \<le> length mem"
    show "transport_payload k (submit_object_pool_upload (contiguous_pool v mem poolSize))
          = Some (0x11 # take (unat poolSize) mem)"
      using payload_of_pool [OF contiguous_pool_holds [OF le] _ k] le
      by (simp add: contiguous_pool_def)
  qed
  have c2: "transport_payload k (submit_object_pool_upload (vector_pool v vec))
       = Some (0x11 # take (unat (of_nat (length vec) :: u32)) vec)"
  proof -
    have "unat (of_nat (length vec) :: u32) \<le> length vec" by (simp add: unat_of_nat)
    then show ?thesis
      using payload_of_pool [OF vector_pool_holds [of v vec] _ k]
      by (simp add: vector_pool_def)
  qed
  have c3: "length d = unat poolTotalSize
        \<and> (\<forall>i off n. off + n \<le> length d \<longrightarrow> cb i off n = Some (\<lambda>j. d ! (off + j))) \<longrightarrow>
        transport_payload k (submit_object_pool_upload (callback_pool v poolTotalSize cb))
          = Some (0x11 # d)"
  proof
    assume h: "length d = unat poolTotalSize
        \<and> (\<forall>i off n. off + n \<le> length d \<longrightarrow> cb i off n = Some (\<lambda>j. d ! (off + j)))"
    then have "pool_holds (callback_pool v poolTotalSize cb) d"
      using callback_pool_holds by blast
    from payload_of_pool [OF this _ k] h
    show "transport_payload k (submit_object_pool_upload (callback_pool v poolTotalSize cb))
          = Some (0x11 # d)"
      by (simp add: callback_pool_def)
  qed
  have e: "state c = UploadObjectPool \<and> objectPools c = earlier @ q # rest
        \<and> list_all uploaded earlier \<and> \<not> uploaded q \<longrightarrow>
        objectPools (process_callback successful c) = earlier @ q\<lparr>uploaded := successful\<rparr> # rest"
    using process_callback_pools by blast
  from a b c1 c2 c3 e show ?thesis by blast
qed

text \<open>
  Three pools of the three kinds, sent in frames of 7 bytes: a vector of 9 bytes, a buffer
  of which 2 bytes are declared, and a callback that serves 3 bytes; and a successful
  completion for a client that is uploading its only pool.
\<close>

theorem object_pool_upload_complete_witness:
  "(0::nat) < 7
   \<and> dataLength (submit_object_pool_upload (vector_pool Version3 [1, 2, 3, 4, 5, 6, 7, 8, 9])) = 10
   \<and> transport_payload 7 (submit_object_pool_upload (vector_pool Version3 [1, 2, 3, 4, 5, 6, 7, 8, 9]))
       = Some [0x11, 1, 2, 3, 4, 5, 6, 7, 8, 9]
   \<and> transport_payload 7 (submit_object_pool_upload (contiguous_pool Version3 [1, 2, 3] 2))
       = Some [0x11, 1, 2]
   \<and> transport_payload 7
        (submit_object_pool_upload
           (callback_pool Version3 3 (\<lambda>i off n. Some (\<lambda>j. [5, 6, 7] ! (off + j)))))
       = Some [0x11, 5, 6, 7]
   \<and> objectPools
        (process_callback True
           (blank_client\<lparr>state := UploadObjectPool,
                          objectPools := [vector_pool Version3 [1, 2]]\<rparr>))
       = [vector_pool Version3 [1, 2]\<lparr>uploaded := True\<rparr>]"
proof -
  have k: "(0::nat) < 7" by simp
  have h1: "unat (2 :: u32) \<le> length [1, 2, 3 :: u8]" by simp
  have h2: "length [5, 6, 7 :: u8] = unat (3 :: u32)
     \<and> (\<forall>i off n. off + n \<le> length [5, 6, 7 :: u8] \<longrightarrow>
          (\<lambda>i off n. Some (\<lambda>j. [5, 6, 7 :: u8] ! (off + j))) i off n
            = Some (\<lambda>j. [5, 6, 7] ! (off + j)))"
    by simp
  have h3: "state (blank_client\<lparr>state := UploadObjectPool,
                          objectPools := [vector_pool Version3 [1, 2]]\<rparr>) = UploadObjectPool
     \<and> objectPools (blank_client\<lparr>state := UploadObjectPool,
                          objectPools := [vector_pool Version3 [1, 2]]\<rparr>)
         = [] @ vector_pool Version3 [1, 2] # []
     \<and> list_all uploaded [] \<and> \<not> uploaded (vector_pool Version3 [1, 2])"
    by (simp add: vector_pool_def)
  have h4: "take (unat (of_nat (length [1, 2, 3, 4, 5, 6, 7, 8, 9 :: u8]) :: u32))
              [1, 2, 3, 4, 5, 6, 7, 8, 9 :: u8] = [1, 2, 3, 4, 5, 6, 7, 8, 9]"
    by simp
  note t = object_pool_upload_complete [OF k,
      where p = "vector_pool Version3 [1, 2, 3, 4, 5, 6, 7, 8, 9]"
        and bytes = "[0x11, 1, 2, 3, 4, 5, 6, 7, 8, 9]"
        and v = Version3 and vec = "[1, 2, 3, 4, 5, 6, 7, 8, 9]"
        and mem = "[1, 2, 3]" and poolSize = 2
        and d = "[5, 6, 7]" and poolTotalSize = 3
        and cb = "\<lambda>i off n. Some (\<lambda>j. [5, 6, 7] ! (off + j))"
        and c = "blank_client\<lparr>state := UploadObjectPool,
                          objectPools := [vector_pool Version3 [1, 2]]\<rparr>"
        and earlier = "[]" and q = "vector_pool Version3 [1, 2]" and rest = "[]"
        and successful = True]
  from t h1 h2 h3 h4 show ?thesis
    by (simp add: vector_pool_def)
qed

end
